theory Spec2Isabelle
  imports Complex_Main "HOL-Library.Char_ord" "HOL-Library.List_Lexorder"
    "HOL-Library.Product_Lexorder"
begin

section \<open>Numbers, errors and table cells\<close>

text \<open>
  The program is \<^verbatim>\<open>interactive_three_statement_sec.py\<close>. Its numbers are Python floats;
  they are modelled by exact reals, so every equation below is an equation of exact
  arithmetic. A float that is not a number (the content of a table cell that was never
  assigned) is the cell \<open>NaN\<close>; arithmetic on cells propagates it, as float arithmetic does.
  Every exception the code can raise is a value \<open>Inl e\<close> of the result.
\<close>

datatype error = KeyError | ValueError | TypeError

definition ebind :: "error + 'a \<Rightarrow> ('a \<Rightarrow> error + 'b) \<Rightarrow> error + 'b" where
  "ebind m f = (case m of Inl e \<Rightarrow> Inl e | Inr x \<Rightarrow> f x)"

datatype cell = NaN | Num real

fun cadd :: "cell \<Rightarrow> cell \<Rightarrow> cell" where
  "cadd (Num x) (Num y) = Num (x + y)"
| "cadd _ _ = NaN"

fun csub :: "cell \<Rightarrow> cell \<Rightarrow> cell" where
  "csub (Num x) (Num y) = Num (x - y)"
| "csub _ _ = NaN"

fun cmul :: "cell \<Rightarrow> cell \<Rightarrow> cell" where
  "cmul (Num x) (Num y) = Num (x * y)"
| "cmul _ _ = NaN"

fun cneg :: "cell \<Rightarrow> cell" where
  "cneg (Num x) = Num (- x)"
| "cneg NaN = NaN"

text \<open>
  \<^verbatim>\<open>max(0, x)\<close>: Python keeps the first argument unless the second compares greater, and
  every comparison with a NaN is false.
\<close>

fun pymax0 :: "cell \<Rightarrow> cell" where
  "pymax0 (Num x) = (if 0 < x then Num x else Num 0)"
| "pymax0 NaN = Num 0"

text \<open>\<^verbatim>\<open>Series.sum()\<close> skips the cells that are not numbers.\<close>

fun nansum :: "cell list \<Rightarrow> real" where
  "nansum [] = 0"
| "nansum (Num x # cs) = x + nansum cs"
| "nansum (NaN # cs) = nansum cs"

text \<open>
  Rounding a number to two decimals, a tie going to the even neighbour; a cell that is not
  a number stays so.
\<close>

definition rint :: "real \<Rightarrow> int" where
  "rint x = (let f = \<lfloor>x\<rfloor>; d = x - of_int f in
     if d < 1 / 2 then f else if 1 / 2 < d then f + 1 else if even f then f else f + 1)"

definition round2 :: "real \<Rightarrow> real" where
  "round2 x = of_int (rint (x * 100)) / 100"

fun cround :: "cell \<Rightarrow> cell" where
  "cround (Num x) = Num (round2 x)"
| "cround NaN = NaN"

section \<open>The data model\<close>

record BaseYear =
  year :: int
  revenue :: real
  cogs :: real
  sga :: real
  da :: real
  interest :: real
  tax_rate :: real
  net_income :: real
  cash :: real
  ar :: real
  inventory :: real
  other_current_assets :: real
  ppe_net :: real
  other_noncurrent_assets :: real
  ap :: real
  accrued_liabilities :: real
  other_current_liabilities :: real
  long_term_debt :: real
  other_noncurrent_liabilities :: real
  common_equity :: real

record Assumptions =
  years :: int
  revenue_growth :: real
  cogs_pct_rev :: real
  sga_pct_rev :: real
  da_pct_rev :: real
  interest_pct_debt :: real
  tax_rate :: real
  ar_pct_rev :: real
  inv_pct_rev :: real
  ap_pct_rev :: real
  accrued_pct_rev :: real
  capex_pct_rev :: real
  target_debt_pct_assets :: real

text \<open>
  A \<^verbatim>\<open>DataFrame\<close>: the row labels in index order, the column labels, the dtype of each
  column and the cells. The column \<^verbatim>\<open>"Net Income"\<close> is \<open>Net_Income\<close> and the column of the
  change in cash is \<open>DeltaCash\<close>.
\<close>

datatype col = Revenue | EBIT | Net_Income | Cash | Debt | Equity | Assets
  | CFO | CFI | CFF | DeltaCash

datatype dtype = Object | Float64

record DataFrame =
  index :: "int list"
  columns :: "col list"
  dtypes :: "col \<Rightarrow> dtype"
  cells :: "int \<Rightarrow> col \<Rightarrow> cell"

text \<open>
  \<^verbatim>\<open>pd.DataFrame(index=..., columns=...)\<close>, a frame created without data: every cell
  starts as NaN and every column has the dtype object.
\<close>

definition new_frame :: "int list \<Rightarrow> col list \<Rightarrow> DataFrame" where
  "new_frame idx cols =
     \<lparr>index = idx, columns = cols, dtypes = (\<lambda>_. Object), cells = (\<lambda>_ _. NaN)\<rparr>"

text \<open>Reading \<^verbatim>\<open>df.loc[y, c]\<close> raises KeyError for a label the frame does not have.\<close>

definition loc :: "DataFrame \<Rightarrow> int \<Rightarrow> col \<Rightarrow> error + cell" where
  "loc df y c =
     (if y \<in> set (index df) \<and> c \<in> set (columns df) then Inr (cells df y c) else Inl KeyError)"

text \<open>
  Assigning a float by \<^verbatim>\<open>df.loc[y, c] = v\<close> enlarges the frame by a label it does not have.
  A column the frame has keeps its dtype (an object column holds the float as it is); a
  column the assignment creates is a float column.
\<close>

definition loc_set :: "DataFrame \<Rightarrow> int \<Rightarrow> col \<Rightarrow> cell \<Rightarrow> DataFrame" where
  "loc_set df y c v =
     \<lparr>index = (if y \<in> set (index df) then index df else index df @ [y]),
      columns = (if c \<in> set (columns df) then columns df else columns df @ [c]),
      dtypes = (if c \<in> set (columns df) then dtypes df else (dtypes df)(c := Float64)),
      cells = (cells df)(y := (cells df y)(c := v))\<rparr>"

text \<open>
  \<^verbatim>\<open>df.round(2)\<close> rounds the columns of a numeric dtype and leaves every other column,
  so every object column, as it is.
\<close>

definition round_frame :: "DataFrame \<Rightarrow> DataFrame" where
  "round_frame df =
     df\<lparr>cells := (\<lambda>y c. if dtypes df c = Float64 then cround (cells df y c) else cells df y c)\<rparr>"

text \<open>The three tables the forecast builds and returns.\<close>

record tables =
  IS :: DataFrame
  BS :: DataFrame
  CF :: DataFrame

text \<open>The local variables of one iteration of the loop of \<^verbatim>\<open>forecast\<close>.\<close>

record year_locals =
  ebit_y :: cell
  interest_y :: cell
  taxes_y :: cell
  ni_y :: cell
  capex_y :: cell

section \<open>The forecast engine\<close>

text \<open>\<^verbatim>\<open>years = [base.year] + [base.year + i for i in range(1, a.years + 1)]\<close>\<close>

definition forecast_years :: "BaseYear \<Rightarrow> Assumptions \<Rightarrow> int list" where
  "forecast_years base a = [year base] @ map (\<lambda>i. year base + i) [1..years a]"

text \<open>The three frames, and the base-year row of the first two (lines 164 to 170).\<close>

definition seed :: "BaseYear \<Rightarrow> Assumptions \<Rightarrow> tables" where
  "seed base a =
     (let ys = forecast_years base a;
          is0 = new_frame ys [Revenue, EBIT, Net_Income];
          bs0 = new_frame ys [Cash, Debt, Equity, Assets];
          cf0 = new_frame ys [CFO, CFI, CFF, DeltaCash];
          is1 = loc_set (loc_set is0 (year base) Revenue (Num (revenue base)))
                  (year base) Net_Income (Num (net_income base));
          bs1 = loc_set (loc_set (loc_set bs0 (year base) Cash (Num (cash base)))
                  (year base) Debt (Num (long_term_debt base)))
                  (year base) Equity (Num (common_equity base));
          bs2 = loc_set bs1 (year base) Assets
                  (Num (cash base + ppe_net base + other_current_assets base
                        + other_noncurrent_assets base))
      in \<lparr>IS = is1, BS = bs2, CF = cf0\<rparr>)"

text \<open>The body of the loop, for the year \<open>y\<close> (lines 173 to 191).\<close>

definition year_step :: "Assumptions \<Rightarrow> int \<Rightarrow> tables \<Rightarrow> error + (year_locals \<times> tables)" where
  "year_step a y t0 =
     (let y0 = y - 1 in
      ebind (loc (IS t0) y0 Revenue) (\<lambda>rev0.
      let t1 = t0\<lparr>IS := loc_set (IS t0) y Revenue (cmul rev0 (Num (1 + revenue_growth a)))\<rparr> in
      ebind (loc (IS t1) y Revenue) (\<lambda>rev.
      let ebit = cmul rev (Num (1 - cogs_pct_rev a - sga_pct_rev a - da_pct_rev a)) in
      ebind (loc (BS t1) y0 Debt) (\<lambda>debt0.
      let interest = cmul debt0 (Num (interest_pct_debt a));
          taxes = pymax0 (cmul (csub ebit interest) (Num (Assumptions.tax_rate a)));
          ni = csub (csub ebit interest) taxes;
          t2 = t1\<lparr>IS := loc_set (loc_set (IS t1) y EBIT ebit) y Net_Income ni\<rparr> in
      ebind (loc (BS t2) y0 Equity) (\<lambda>equity0.
      let t3 = t2\<lparr>BS := loc_set (BS t2) y Equity (cadd equity0 ni)\<rparr> in
      ebind (loc (BS t3) y0 Assets) (\<lambda>assets0.
      let t4 = t3\<lparr>BS := loc_set (BS t3) y Debt
                          (cmul (Num (target_debt_pct_assets a)) assets0)\<rparr> in
      ebind (loc (IS t4) y Revenue) (\<lambda>rev'.
      let capex = cmul rev' (Num (capex_pct_rev a));
          t5 = t4\<lparr>CF := loc_set (loc_set (CF t4) y CFO ni) y CFI (cneg capex)\<rparr> in
      ebind (loc (BS t5) y Debt) (\<lambda>debt.
      ebind (loc (BS t5) y0 Debt) (\<lambda>debt0'.
      let t6 = t5\<lparr>CF := loc_set (CF t5) y CFF (csub debt debt0')\<rparr> in
      ebind (loc (CF t6) y CFO) (\<lambda>cfo.
      ebind (loc (CF t6) y CFI) (\<lambda>cfi.
      ebind (loc (CF t6) y CFF) (\<lambda>cff.
      let t7 = t6\<lparr>CF := loc_set (CF t6) y DeltaCash (Num (nansum [cfo, cfi, cff]))\<rparr> in
      ebind (loc (BS t7) y0 Cash) (\<lambda>cash0.
      ebind (loc (CF t7) y DeltaCash) (\<lambda>dcash.
      let t8 = t7\<lparr>BS := loc_set (BS t7) y Cash (cadd cash0 dcash)\<rparr> in
      ebind (loc (BS t8) y Cash) (\<lambda>cash'.
      ebind (loc (BS t8) y Debt) (\<lambda>debt'.
      ebind (loc (BS t8) y Equity) (\<lambda>equity'.
      let t9 = t8\<lparr>BS := loc_set (BS t8) y Assets (cadd (cadd cash' debt') equity')\<rparr> in
      Inr (\<lparr>ebit_y = ebit, interest_y = interest, taxes_y = taxes, ni_y = ni,
            capex_y = capex\<rparr>, t9))))))))))))))))))"

text \<open>
  The loop \<^verbatim>\<open>for y in years[1:]\<close>. Beside the tables it returns, year by year, the local
  variables of each iteration, which the tables do not all keep.
\<close>

fun year_loop ::
  "Assumptions \<Rightarrow> int list \<Rightarrow> tables \<Rightarrow> error + ((int \<times> year_locals) list \<times> tables)" where
  "year_loop a [] t = Inr ([], t)"
| "year_loop a (y # ys) t =
     ebind (year_step a y t) (\<lambda>(l, t').
     ebind (year_loop a ys t') (\<lambda>(ls, t'').
     Inr ((y, l) # ls, t'')))"

text \<open>The tables as the loop leaves them, before the \<^verbatim>\<open>round(2)\<close> of the last line.\<close>

definition forecast_raw ::
  "BaseYear \<Rightarrow> Assumptions \<Rightarrow> error + ((int \<times> year_locals) list \<times> tables)" where
  "forecast_raw base a = year_loop a (tl (forecast_years base a)) (seed base a)"

definition forecast :: "BaseYear \<Rightarrow> Assumptions \<Rightarrow> error + tables" where
  "forecast base a =
     ebind (forecast_raw base a) (\<lambda>(ls, t).
     Inr \<lparr>IS = round_frame (IS t), BS = round_frame (BS t), CF = round_frame (CF t)\<rparr>)"


section \<open>The base-year normalizer\<close>

text \<open>
  One reported record of a concept, as the facts provider delivers it: a JSON object whose
  keys \<^verbatim>\<open>fp\<close>, \<^verbatim>\<open>end\<close>, \<^verbatim>\<open>filed\<close>, \<^verbatim>\<open>fy\<close> and \<^verbatim>\<open>val\<close> may each be missing (the field
  \<open>end_date\<close> is the key \<^verbatim>\<open>end\<close>; a \<^verbatim>\<open>fy\<close> of null is a missing one).
\<close>

record fact =
  fp :: "string option"
  end_date :: "string option"
  filed :: "string option"
  fy :: "int option"
  val :: "real option"

text \<open>
  The facts mapping, read as \<^verbatim>\<open>facts["facts"]["us-gaap"][tag]["units"]["USD"]\<close>:
  five nested dictionaries above the list of records.
\<close>

type_synonym companyfacts =
  "string \<rightharpoonup> (string \<rightharpoonup> (string \<rightharpoonup> (string \<rightharpoonup> (string \<rightharpoonup> fact list))))"

text \<open>Subscripting a dictionary raises KeyError for a missing key.\<close>

definition dict_get :: "('k \<rightharpoonup> 'v) \<Rightarrow> 'k \<Rightarrow> error + 'v" where
  "dict_get d k = (case d k of None \<Rightarrow> Inl KeyError | Some v \<Rightarrow> Inr v)"

text \<open>
  \<^verbatim>\<open>int(s)\<close> on a string of ASCII characters: white space around, an optional sign, then
  digits, single underscores allowed between digits; anything else raises ValueError.
\<close>

definition is_space :: "char \<Rightarrow> bool" where
  "is_space c \<longleftrightarrow> c \<in> set [CHR '' '', CHR 0x09, CHR 0x0A, CHR 0x0B, CHR 0x0C, CHR 0x0D]"


definition is_digit :: "char \<Rightarrow> bool" where
  "is_digit c \<longleftrightarrow> c \<in> set ''0123456789''"


definition digit_val :: "char \<Rightarrow> nat" where
  "digit_val c = of_char c - 48"


fun digits :: "nat \<Rightarrow> string \<Rightarrow> nat option" where
  "digits n [] = Some n"
| "digits n (c # cs) =
     (if is_digit c then digits (10 * n + digit_val c) cs
      else if c = CHR ''_'' \<and> cs \<noteq> [] \<and> is_digit (hd cs) then digits n cs
      else None)"


definition py_int :: "string \<Rightarrow> error + int" where
  "py_int s =
     (let t = rev (dropWhile is_space (rev (dropWhile is_space s)));
          neg = (t \<noteq> [] \<and> hd t = CHR ''-'');
          u = (if t \<noteq> [] \<and> (hd t = CHR ''-'' \<or> hd t = CHR ''+'') then tl t else t)
      in if u = [] \<or> \<not> is_digit (hd u) then Inl ValueError
         else case digits 0 u of
                None \<Rightarrow> Inl ValueError
              | Some n \<Rightarrow> Inr (if neg then - int n else int n))"

text \<open>The lookup inside the \<^verbatim>\<open>try\<close> of \<^verbatim>\<open>pick_latest_annual_usd\<close> (line 97).\<close>

definition usd_items :: "companyfacts \<Rightarrow> string \<Rightarrow> error + fact list" where
  "usd_items facts tag =
     ebind (dict_get facts ''facts'') (\<lambda>f.
     ebind (dict_get f ''us-gaap'') (\<lambda>g.
     ebind (dict_get g tag) (\<lambda>c.
     ebind (dict_get c ''units'') (\<lambda>u.
     dict_get u ''USD''))))"

text \<open>The sort key of line 103: the pair of \<^verbatim>\<open>end\<close> and \<^verbatim>\<open>filed\<close>, each defaulting to the empty string.\<close>

definition record_key :: "fact \<Rightarrow> string \<times> string" where
  "record_key x =
     (case end_date x of None \<Rightarrow> '''' | Some s \<Rightarrow> s, case filed x of None \<Rightarrow> '''' | Some s \<Rightarrow> s)"

text \<open>
  Lines 104 and 105: the year is \<^verbatim>\<open>fy\<close> unless that is missing or zero, else the integer
  value of the first four characters of \<^verbatim>\<open>end\<close> (of \<^verbatim>\<open>"0000"\<close> when \<^verbatim>\<open>end\<close> is missing);
  \<^verbatim>\<open>latest["val"]\<close> raises KeyError when the record has no value.
\<close>

definition latest_year_val :: "fact \<Rightarrow> error + (int \<times> real)" where
  "latest_year_val latest =
     ebind (case fy latest of
              Some n \<Rightarrow> if n \<noteq> 0 then Inr n
                        else py_int (take 4 (case end_date latest of None \<Rightarrow> ''0000'' | Some s \<Rightarrow> s))
            | None \<Rightarrow> py_int (take 4 (case end_date latest of None \<Rightarrow> ''0000'' | Some s \<Rightarrow> s)))
       (\<lambda>year.
     ebind (case val latest of None \<Rightarrow> Inl KeyError | Some v \<Rightarrow> Inr v) (\<lambda>v.
     Inr (year, v)))"

text \<open>
  \<^verbatim>\<open>sorted\<close> is stable, as \<open>sort_key\<close> is, and strings and pairs are compared
  lexicographically; \<^verbatim>\<open>[-1]\<close> takes the last record of the sorted list.
\<close>

definition pick_latest_annual_usd :: "companyfacts \<Rightarrow> string \<Rightarrow> error + (int \<times> real) option" where
  "pick_latest_annual_usd facts tag =
     (case usd_items facts tag of
        Inl e \<Rightarrow> Inr None
      | Inr items \<Rightarrow>
          (let annual = filter (\<lambda>x. fp x = Some ''FY'') items in
           if annual = [] then Inr None
           else let latest = last (sort_key record_key annual) in
                ebind (latest_year_val latest) (\<lambda>yv. Inr (Some yv))))"

text \<open>The inner function \<^verbatim>\<open>get\<close> of \<^verbatim>\<open>build_base_year_from_sec\<close>.\<close>

definition get :: "companyfacts \<Rightarrow> string \<Rightarrow> error + real" where
  "get facts tag =
     ebind (pick_latest_annual_usd facts tag) (\<lambda>out.
     Inr (case out of Some (y, v) \<Rightarrow> v | None \<Rightarrow> 0))"

text \<open>
  \<^verbatim>\<open>build_base_year_from_sec\<close> after its two network calls: the parameter is the facts
  mapping that \<^verbatim>\<open>fetch_companyfacts\<close> returned. Subscripting the \<^verbatim>\<open>None\<close> of a revenue
  concept without annual record raises TypeError.
\<close>

definition build_base_year_from_sec :: "companyfacts \<Rightarrow> error + BaseYear" where
  "build_base_year_from_sec facts =
     ebind (get facts ''Revenues'') (\<lambda>revenue.
     ebind (get facts ''CostOfRevenue'') (\<lambda>cogs.
     ebind (get facts ''SellingGeneralAndAdministrativeExpense'') (\<lambda>sga.
     ebind (get facts ''DepreciationDepletionAndAmortization'') (\<lambda>da.
     ebind (get facts ''InterestExpense'') (\<lambda>interest.
     ebind (get facts ''NetIncomeLoss'') (\<lambda>net_income.
     ebind (get facts ''Assets'') (\<lambda>assets.
     ebind (get facts ''Liabilities'') (\<lambda>liabilities.
     ebind (get facts ''CashAndCashEquivalentsAtCarryingValue'') (\<lambda>cash.
     ebind (get facts ''AccountsReceivableNetCurrent'') (\<lambda>ar.
     ebind (get facts ''InventoryNet'') (\<lambda>inventory.
     ebind (get facts ''PropertyPlantAndEquipmentNet'') (\<lambda>ppe.
     ebind (get facts ''AccountsPayableCurrent'') (\<lambda>ap.
     ebind (get facts ''AccruedLiabilitiesCurrent'') (\<lambda>accrued.
     ebind (get facts ''LongTermDebtNoncurrent'') (\<lambda>debt.
     ebind (get facts ''StockholdersEquity'') (\<lambda>reported_equity.
     let equity = (if reported_equity \<noteq> 0 then reported_equity else assets - liabilities);
         other_assets = max 0 (assets - (cash + ar + inventory + ppe));
         other_liab = max 0 (liabilities - (ap + accrued + debt))
     in
     ebind (pick_latest_annual_usd facts ''Revenues'') (\<lambda>out.
     case out of
       None \<Rightarrow> Inl TypeError
     | Some (y, v) \<Rightarrow>
         Inr \<lparr>year = y, revenue = revenue, cogs = cogs, sga = sga, da = da,
              interest = interest, tax_rate = 21 / 100, net_income = net_income,
              cash = cash, ar = ar, inventory = inventory,
              other_current_assets = other_assets * (5 / 10), ppe_net = ppe,
              other_noncurrent_assets = other_assets * (5 / 10), ap = ap,
              accrued_liabilities = accrued,
              other_current_liabilities = other_liab * (5 / 10), long_term_debt = debt,
              other_noncurrent_liabilities = other_liab * (5 / 10),
              common_equity = equity\<rparr>)))))))))))))))))"

text \<open>The annual records in US dollars of a concept: the list \<^verbatim>\<open>annual\<close> of line 100, empty when the lookup fails.\<close>

definition annual_records :: "companyfacts \<Rightarrow> string \<Rightarrow> fact list" where
  "annual_records facts tag =
     (case usd_items facts tag of
        Inl e \<Rightarrow> []
      | Inr items \<Rightarrow> filter (\<lambda>x. fp x = Some ''FY'') items)"


text \<open>Example inputs of the normalizer.\<close>

definition annual_fact :: "string \<Rightarrow> string \<Rightarrow> int option \<Rightarrow> real option \<Rightarrow> fact" where
  "annual_fact e f y v = \<lparr>fp = Some ''FY'', end_date = Some e, filed = Some f, fy = y, val = v\<rparr>"


definition quarter_fact :: fact where
  "quarter_fact = \<lparr>fp = Some ''Q1'', end_date = Some ''2024-03-31'', filed = Some ''2024-05-01'',
     fy = Some 2024, val = Some 30\<rparr>"


definition concept :: "fact list \<Rightarrow> string \<rightharpoonup> (string \<rightharpoonup> fact list)" where
  "concept xs = [''units'' \<mapsto> [''USD'' \<mapsto> xs]]"


definition example_facts :: companyfacts where
  "example_facts = [''facts'' \<mapsto> [''us-gaap'' \<mapsto>
     [''Revenues'' \<mapsto> concept [annual_fact ''2023-12-31'' ''2024-02-01'' None (Some 100),
                               annual_fact ''2022-12-31'' ''2023-02-01'' (Some 2022) (Some 90),
                               quarter_fact],
      ''Assets'' \<mapsto> concept [annual_fact ''2023-12-31'' ''2024-02-01'' (Some 2023) (Some 1000)],
      ''Liabilities'' \<mapsto> concept [annual_fact ''2023-12-31'' ''2024-02-01'' (Some 2023) (Some 600)],
      ''CashAndCashEquivalentsAtCarryingValue'' \<mapsto>
         concept [annual_fact ''2023-12-31'' ''2024-02-01'' (Some 2023) (Some 100)],
      ''StockholdersEquity'' \<mapsto>
         concept [annual_fact ''2023-12-31'' ''2024-02-01'' (Some 2023) (Some 0)]]]]"


definition example_base :: BaseYear where
  "example_base = \<lparr>year = 2023, revenue = 100, cogs = 0, sga = 0, da = 0, interest = 0,
     tax_rate = 21 / 100, net_income = 0, cash = 100, ar = 0, inventory = 0,
     other_current_assets = 450, ppe_net = 0, other_noncurrent_assets = 450, ap = 0,
     accrued_liabilities = 0, other_current_liabilities = 300, long_term_debt = 0,
     other_noncurrent_liabilities = 300, common_equity = 400\<rparr>"






text \<open>
  Facts on which the order of the records shows: of the three annual records in US
  dollars the first has the latest period end and the latest filing among those of that
  period end, the second was filed last of all, the third has the latest period end
  too; a quarterly record and a record in another currency have later period ends.
  The concept \<^verbatim>\<open>Assets\<close> is reported in another currency only.
\<close>

definition order_facts :: companyfacts where
  "order_facts = [''facts'' \<mapsto> [''us-gaap'' \<mapsto>
     [''Revenues'' \<mapsto> [''units'' \<mapsto>
        [''USD'' \<mapsto> [annual_fact ''2023-12-31'' ''2024-03-15'' (Some 2023) (Some 3),
                     annual_fact ''2022-12-31'' ''2024-06-01'' (Some 2022) (Some 2),
                     annual_fact ''2023-12-31'' ''2024-02-01'' (Some 2023) (Some 1),
                     quarter_fact],
         ''EUR'' \<mapsto> [annual_fact ''2025-12-31'' ''2026-02-01'' (Some 2025) (Some 5)]]],
      ''Assets'' \<mapsto> [''units'' \<mapsto>
        [''EUR'' \<mapsto> [annual_fact ''2025-12-31'' ''2026-02-01'' (Some 2025) (Some 5)]]]]]]"

section \<open>Auxiliary predicates and example inputs\<close>

text \<open>
  All three frames have the given index, the columns they were created with and the
  dtype object in every column.
\<close>

definition wf_tables :: "int list \<Rightarrow> tables \<Rightarrow> bool" where
  "wf_tables idx t \<longleftrightarrow>
     index (IS t) = idx \<and> columns (IS t) = [Revenue, EBIT, Net_Income] \<and>
     index (BS t) = idx \<and> columns (BS t) = [Cash, Debt, Equity, Assets] \<and>
     index (CF t) = idx \<and> columns (CF t) = [CFO, CFI, CFF, DeltaCash] \<and>
     dtypes (IS t) = (\<lambda>_. Object) \<and> dtypes (BS t) = (\<lambda>_. Object) \<and>
     dtypes (CF t) = (\<lambda>_. Object)"


text \<open>
  The row of the year \<open>y\<close> and the local variables \<open>l\<close> of its iteration follow from the
  row of the year before by the recurrence of the loop body.
\<close>

definition row_rel :: "Assumptions \<Rightarrow> tables \<Rightarrow> year_locals \<Rightarrow> int \<Rightarrow> bool" where
  "row_rel a t l y \<longleftrightarrow>
     (\<exists>r0 d0 e0 a0 c0.
        loc (IS t) (y - 1) Revenue = Inr (Num r0) \<and> loc (BS t) (y - 1) Debt = Inr (Num d0) \<and>
        loc (BS t) (y - 1) Equity = Inr (Num e0) \<and> loc (BS t) (y - 1) Assets = Inr (Num a0) \<and>
        loc (BS t) (y - 1) Cash = Inr (Num c0) \<and>
        (let rev = r0 * (1 + revenue_growth a);
             ebit = rev * (1 - cogs_pct_rev a - sga_pct_rev a - da_pct_rev a);
             intr = d0 * interest_pct_debt a;
             tax = max 0 ((ebit - intr) * Assumptions.tax_rate a);
             ni = ebit - intr - tax;
             debt = target_debt_pct_assets a * a0;
             capex = rev * capex_pct_rev a;
             dcash = ni + (- capex) + (debt - d0);
             csh = c0 + dcash
         in loc (IS t) y Revenue = Inr (Num rev) \<and> loc (IS t) y EBIT = Inr (Num ebit) \<and>
            loc (IS t) y Net_Income = Inr (Num ni) \<and>
            ebit_y l = Num ebit \<and> interest_y l = Num intr \<and> taxes_y l = Num tax \<and>
            ni_y l = Num ni \<and> capex_y l = Num capex \<and>
            loc (BS t) y Equity = Inr (Num (e0 + ni)) \<and> loc (BS t) y Debt = Inr (Num debt) \<and>
            loc (CF t) y CFO = Inr (Num ni) \<and> loc (CF t) y CFI = Inr (Num (- capex)) \<and>
            loc (CF t) y CFF = Inr (Num (debt - d0)) \<and>
            loc (CF t) y DeltaCash = Inr (Num dcash) \<and>
            loc (BS t) y Cash = Inr (Num csh) \<and>
            loc (BS t) y Assets = Inr (Num (csh + debt + (e0 + ni)))))"


text \<open>Two states of the tables agree on the row \<open>k\<close> of every frame.\<close>

definition rows_eq :: "tables \<Rightarrow> tables \<Rightarrow> int \<Rightarrow> bool" where
  "rows_eq t' t k \<longleftrightarrow> cells (IS t') k = cells (IS t) k \<and>
        cells (BS t') k = cells (BS t) k \<and> cells (CF t') k = cells (CF t) k"


text \<open>The scenario of the specification, its unnamed fields set to zero.\<close>

definition scenario_base :: BaseYear where
  "scenario_base = \<lparr>year = 2023, revenue = 100, cogs = 0, sga = 0, da = 0, interest = 0,
     tax_rate = 0, net_income = 10, cash = 20, ar = 0, inventory = 0,
     other_current_assets = 0, ppe_net = 0, other_noncurrent_assets = 0, ap = 0,
     accrued_liabilities = 0, other_current_liabilities = 0, long_term_debt = 30,
     other_noncurrent_liabilities = 0, common_equity = 50\<rparr>"

definition scenario_assumptions :: Assumptions where
  "scenario_assumptions = \<lparr>years = 1, revenue_growth = 10 / 100, cogs_pct_rev = 5 / 10,
     sga_pct_rev = 2 / 10, da_pct_rev = 5 / 100, interest_pct_debt = 5 / 100,
     tax_rate = 21 / 100, ar_pct_rev = 0, inv_pct_rev = 0, ap_pct_rev = 0,
     accrued_pct_rev = 0, capex_pct_rev = 3 / 100, target_debt_pct_assets = 10 / 100\<rparr>"

text \<open>A cell of a table of a result, or the error of the result.\<close>

definition table_cell :: "error + tables \<Rightarrow> (tables \<Rightarrow> DataFrame) \<Rightarrow> int \<Rightarrow> col \<Rightarrow> error + cell" where
  "table_cell r frame y c = ebind r (\<lambda>t. loc (frame t) y c)"

text \<open>Inputs with values below one cent and flat assumptions of a given horizon.\<close>

definition tiny_base :: BaseYear where
  "tiny_base = \<lparr>year = 2023, revenue = 0, cogs = 0, sga = 0, da = 0, interest = 0,
     tax_rate = 0, net_income = 0, cash = 4 / 1000, ar = 0, inventory = 0,
     other_current_assets = 0, ppe_net = 0, other_noncurrent_assets = 0, ap = 0,
     accrued_liabilities = 0, other_current_liabilities = 0, long_term_debt = 4 / 1000,
     other_noncurrent_liabilities = 0, common_equity = 4 / 1000\<rparr>"

definition flat_assumptions :: "int \<Rightarrow> Assumptions" where
  "flat_assumptions n = \<lparr>years = n, revenue_growth = 0, cogs_pct_rev = 0,
     sga_pct_rev = 0, da_pct_rev = 0, interest_pct_debt = 0,
     tax_rate = 0, ar_pct_rev = 0, inv_pct_rev = 0, ap_pct_rev = 0,
     accrued_pct_rev = 0, capex_pct_rev = 0, target_debt_pct_assets = 1\<rparr>"

section \<open>The loop of the forecast\<close>


lemma ebind_simps [simp]: "ebind (Inr x) f = f x" "ebind (Inl e) f = Inl e"
  by (simp_all add: ebind_def)

lemma ebind_Inr_iff: "ebind m f = Inr y \<longleftrightarrow> (\<exists>x. m = Inr x \<and> f x = Inr y)"
  by (cases m) simp_all

lemma loc_in: "y \<in> set (index df) \<Longrightarrow> c \<in> set (columns df) \<Longrightarrow> loc df y c = Inr (cells df y c)"
  by (simp add: loc_def)

lemma cells_loc_set:
  "cells (loc_set df y c v) k c' = (if k = y \<and> c' = c then v else cells df k c')"
  by (simp add: loc_set_def)

lemma index_loc_set [simp]: "y \<in> set (index df) \<Longrightarrow> index (loc_set df y c v) = index df"
  by (simp add: loc_set_def)
lemma columns_loc_set [simp]: "c \<in> set (columns df) \<Longrightarrow> columns (loc_set df y c v) = columns df"
  by (simp add: loc_set_def)

lemma dtypes_loc_set [simp]: "c \<in> set (columns df) \<Longrightarrow> dtypes (loc_set df y c v) = dtypes df"
  by (simp add: loc_set_def)

lemma year_step_ok:
  assumes wf: "wf_tables idx t" and y: "y \<in> set idx" and y0: "y - 1 \<in> set idx"
    and c: "cells (IS t) (y - 1) Revenue = Num r0" "cells (BS t) (y - 1) Debt = Num d0"
      "cells (BS t) (y - 1) Equity = Num e0" "cells (BS t) (y - 1) Assets = Num a0"
      "cells (BS t) (y - 1) Cash = Num c0"
  shows "\<exists>l t'. year_step a y t = Inr (l, t') \<and> wf_tables idx t' \<and> row_rel a t' l y \<and>
     (\<forall>k c. k \<noteq> y \<longrightarrow> cells (IS t') k c = cells (IS t) k c \<and>
        cells (BS t') k c = cells (BS t) k c \<and> cells (CF t') k c = cells (CF t) k c) \<and>
     (\<exists>r d e s c. cells (IS t') y Revenue = Num r \<and> cells (BS t') y Debt = Num d \<and>
        cells (BS t') y Equity = Num e \<and> cells (BS t') y Assets = Num s \<and>
        cells (BS t') y Cash = Num c)"
  using assms unfolding year_step_def wf_tables_def row_rel_def
  by (simp add: loc_in cells_loc_set Let_def max_def)


lemma loc_cong:
  "index df' = index df \<Longrightarrow> columns df' = columns df \<Longrightarrow> cells df' k = cells df k \<Longrightarrow>
   loc df' k = loc df k"
  by (intro ext) (simp add: loc_def)

lemma row_rel_cong:
  assumes rr: "row_rel a t l y" and wf: "wf_tables idx t" "wf_tables idx t'"
    and eq: "rows_eq t' t y" "rows_eq t' t (y - 1)"
  shows "row_rel a t' l y"
proof -
  have "loc (IS t') y = loc (IS t) y" "loc (BS t') y = loc (BS t) y" "loc (CF t') y = loc (CF t) y"
    "loc (IS t') (y - 1) = loc (IS t) (y - 1)" "loc (BS t') (y - 1) = loc (BS t) (y - 1)"
    using wf eq unfolding wf_tables_def rows_eq_def by (simp_all add: loc_cong)
  with rr show ?thesis unfolding row_rel_def by (simp only:)
qed

lemma year_loop_ok:
  "wf_tables idx t \<Longrightarrow> set [lo - 1..hi] \<subseteq> set idx \<Longrightarrow>
   cells (IS t) (lo - 1) Revenue = Num r0 \<Longrightarrow> cells (BS t) (lo - 1) Debt = Num d0 \<Longrightarrow>
   cells (BS t) (lo - 1) Equity = Num e0 \<Longrightarrow> cells (BS t) (lo - 1) Assets = Num a0 \<Longrightarrow>
   cells (BS t) (lo - 1) Cash = Num c0 \<Longrightarrow>
   \<exists>ls t'. year_loop a [lo..hi] t = Inr (ls, t') \<and> wf_tables idx t' \<and> map fst ls = [lo..hi] \<and>
     (\<forall>k. k < lo \<longrightarrow> rows_eq t' t k) \<and> (\<forall>y l. (y, l) \<in> set ls \<longrightarrow> row_rel a t' l y)"
proof (induction lo hi arbitrary: t r0 d0 e0 a0 c0 rule: upto.induct)
  case (1 lo hi)
  show ?case
  proof (cases "lo \<le> hi")
    case False
    then show ?thesis by (simp add: rows_eq_def "1.prems"(1))
  next
    case True
    then have up: "[lo..hi] = lo # [lo + 1..hi]" by (simp add: upto_rec1)
    have mem: "lo \<in> set idx" "lo - 1 \<in> set idx"
      using "1.prems"(2) True by auto
    from year_step_ok [OF "1.prems"(1) mem "1.prems"(3-7), of a]
    obtain l t1 where st: "year_step a lo t = Inr (l, t1)" and wf1: "wf_tables idx t1"
      and rr: "row_rel a t1 l lo"
      and same0: "\<forall>k c. k \<noteq> lo \<longrightarrow> cells (IS t1) k c = cells (IS t) k c \<and>
        cells (BS t1) k c = cells (BS t) k c \<and> cells (CF t1) k c = cells (CF t) k c"
      and cs0: "\<exists>r d e s c. cells (IS t1) lo Revenue = Num r \<and> cells (BS t1) lo Debt = Num d \<and>
        cells (BS t1) lo Equity = Num e \<and> cells (BS t1) lo Assets = Num s \<and>
        cells (BS t1) lo Cash = Num c"
      by blast
    have same: "rows_eq t1 t k" if "k \<noteq> lo" for k
      unfolding rows_eq_def using same0 that by (intro conjI ext) simp_all
    from cs0 obtain r d e s c where
      cs: "cells (IS t1) lo Revenue = Num r" "cells (BS t1) lo Debt = Num d"
        "cells (BS t1) lo Equity = Num e" "cells (BS t1) lo Assets = Num s"
        "cells (BS t1) lo Cash = Num c" by blast
    have sub: "set [lo + 1 - 1..hi] \<subseteq> set idx"
      using "1.prems"(2) by auto
    from "1.IH" [OF True wf1 sub, of r d e s c] cs
    obtain ls t' where lp: "year_loop a [lo + 1..hi] t1 = Inr (ls, t')"
      and wf': "wf_tables idx t'" and fs: "map fst ls = [lo + 1..hi]"
      and same': "\<And>k. k < lo + 1 \<Longrightarrow> rows_eq t' t1 k"
      and rr': "\<And>y l. (y, l) \<in> set ls \<Longrightarrow> row_rel a t' l y"
      by auto
    have "year_loop a [lo..hi] t = Inr ((lo, l) # ls, t')"
      by (simp add: up st lp)
    moreover have "map fst ((lo, l) # ls) = [lo..hi]"
      by (simp add: up fs)
    moreover have "rows_eq t' t k" if "k < lo" for k
      using same [of k] same' [of k] that unfolding rows_eq_def by simp
    moreover have "row_rel a t' l lo"
      using same' [of lo] same' [of "lo - 1"]
      by (intro row_rel_cong [OF rr wf1 wf']) simp_all
    ultimately show ?thesis using wf' rr' by auto
  qed
qed

lemma map_add_upto: "map (\<lambda>i. b + i) [i..j] = [b + i..b + j]"
proof (induction i j rule: upto.induct)
  case (1 i j)
  show ?case
  proof (cases "i \<le> j")
    case True
    then show ?thesis using 1 by (simp add: upto_rec1 [of i j] upto_rec1 [of "b + i" "b + j"] add.assoc)
  next
    case False
    then show ?thesis by simp
  qed
qed

lemma forecast_years_eq: "forecast_years base a = year base # [year base + 1..year base + years a]"
  by (simp add: forecast_years_def map_add_upto)

lemma wf_seed: "wf_tables (forecast_years base a) (seed base a)"
  by (simp add: seed_def wf_tables_def new_frame_def Let_def forecast_years_eq)

lemma cells_seed:
  "cells (IS (seed base a)) (year base) Revenue = Num (revenue base)"
  "cells (IS (seed base a)) (year base) EBIT = NaN"
  "cells (IS (seed base a)) (year base) Net_Income = Num (net_income base)"
  "cells (BS (seed base a)) (year base) Cash = Num (cash base)"
  "cells (BS (seed base a)) (year base) Debt = Num (long_term_debt base)"
  "cells (BS (seed base a)) (year base) Equity = Num (common_equity base)"
  "cells (BS (seed base a)) (year base) Assets =
     Num (cash base + ppe_net base + other_current_assets base + other_noncurrent_assets base)"
  "cells (CF (seed base a)) k c = NaN"
  by (simp_all add: seed_def new_frame_def Let_def cells_loc_set)

lemma forecast_raw_ok:
  "\<exists>ls t. forecast_raw base a = Inr (ls, t) \<and> wf_tables (forecast_years base a) t \<and>
     map fst ls = [year base + 1..year base + years a] \<and>
     rows_eq t (seed base a) (year base) \<and> (\<forall>y l. (y, l) \<in> set ls \<longrightarrow> row_rel a t l y)"
proof -
  have sub: "set [year base + 1 - 1..year base + years a] \<subseteq> set (forecast_years base a)"
    by (auto simp: forecast_years_eq)
  from year_loop_ok [OF wf_seed sub, of "revenue base" "long_term_debt base"
      "common_equity base" _ "cash base" a]
  show ?thesis
    by (fastforce simp: cells_seed forecast_raw_def forecast_years_eq)
qed


lemma forecast_eq:
  "forecast_raw base a = Inr (ls, t) \<Longrightarrow>
   forecast base a =
     Inr \<lparr>IS = round_frame (IS t), BS = round_frame (BS t), CF = round_frame (CF t)\<rparr>"
  by (simp add: forecast_def)

lemma round_frame_object: "dtypes df = (\<lambda>_. Object) \<Longrightarrow> round_frame df = df"
  by (simp add: round_frame_def)

lemma forecast_unrounded:
  assumes "forecast_raw base a = Inr (ls, t)" and "wf_tables idx t"
  shows "forecast base a = Inr t"
  using assms(2) unfolding forecast_eq [OF assms(1)] wf_tables_def
  by (simp add: round_frame_object)

lemma trace_entry:
  assumes "map fst ls = [lo..hi]" and "lo \<le> y" and "y \<le> hi"
  shows "\<exists>l. map_of ls y = Some l \<and> (y, l) \<in> set ls"
proof -
  have "distinct (map fst ls)" using assms(1) by simp
  moreover have "y \<in> set (map fst ls)" using assms by simp
  then obtain l where "(y, l) \<in> set ls" by auto
  ultimately show ?thesis by (auto intro: map_of_is_SomeI)
qed

lemma projected_row:
  assumes "year base < y" and "y \<le> year base + years a"
  shows "\<exists>ls t l. forecast_raw base a = Inr (ls, t) \<and> map_of ls y = Some l \<and> row_rel a t l y \<and>
    wf_tables (forecast_years base a) t \<and> forecast base a = Inr t"
proof -
  from forecast_raw_ok [of base a] obtain ls t where
    raw: "forecast_raw base a = Inr (ls, t)" and wf: "wf_tables (forecast_years base a) t"
    and fs: "map fst ls = [year base + 1..year base + years a]"
    and rr: "\<And>y l. (y, l) \<in> set ls \<Longrightarrow> row_rel a t l y"
    by blast
  from trace_entry [OF fs, of y] assms obtain l where "map_of ls y = Some l" "(y, l) \<in> set ls"
    by auto
  with raw wf rr forecast_unrounded [OF raw wf] show ?thesis by blast
qed

lemma base_row:
  "\<exists>ls t. forecast_raw base a = Inr (ls, t) \<and> wf_tables (forecast_years base a) t \<and>
     cells (IS t) (year base) = cells (IS (seed base a)) (year base) \<and>
     cells (BS t) (year base) = cells (BS (seed base a)) (year base) \<and>
     cells (CF t) (year base) = cells (CF (seed base a)) (year base)"
  using forecast_raw_ok [of base a] unfolding rows_eq_def by blast

lemma length_forecast_years: "length (forecast_years base a) = Suc (nat (years a))"
  by (simp add: forecast_years_eq)

lemma base_row_out:
  "\<exists>ls t. forecast_raw base a = Inr (ls, t) \<and> forecast base a = Inr t \<and>
     index (IS t) = year base # [year base + 1..year base + years a] \<and>
     index (BS t) = index (IS t) \<and> index (CF t) = index (IS t) \<and>
     length (index (IS t)) = Suc (nat (years a)) \<and>
     sorted_wrt (<) (index (IS t)) \<and> hd (index (IS t)) = year base \<and>
     loc (IS t) (year base) Revenue = Inr (Num (revenue base)) \<and>
     loc (IS t) (year base) EBIT = Inr NaN \<and>
     loc (IS t) (year base) Net_Income = Inr (Num (net_income base)) \<and>
     loc (BS t) (year base) Cash = Inr (Num (cash base)) \<and>
     loc (BS t) (year base) Debt = Inr (Num (long_term_debt base)) \<and>
     loc (BS t) (year base) Equity = Inr (Num (common_equity base)) \<and>
     loc (BS t) (year base) Assets =
       Inr (Num (cash base + ppe_net base + other_current_assets base
                 + other_noncurrent_assets base)) \<and>
     loc (CF t) (year base) CFO = Inr NaN \<and> loc (CF t) (year base) CFI = Inr NaN \<and>
     loc (CF t) (year base) CFF = Inr NaN \<and> loc (CF t) (year base) DeltaCash = Inr NaN"
proof -
  from base_row [of base a] obtain ls t where
    raw: "forecast_raw base a = Inr (ls, t)" and wf: "wf_tables (forecast_years base a) t"
    and rows: "cells (IS t) (year base) = cells (IS (seed base a)) (year base)"
      "cells (BS t) (year base) = cells (BS (seed base a)) (year base)"
      "cells (CF t) (year base) = cells (CF (seed base a)) (year base)"
    by blast
  have idx: "index (IS t) = forecast_years base a" "index (BS t) = forecast_years base a"
    "index (CF t) = forecast_years base a"
    and cols: "columns (IS t) = [Revenue, EBIT, Net_Income]"
      "columns (BS t) = [Cash, Debt, Equity, Assets]" "columns (CF t) = [CFO, CFI, CFF, DeltaCash]"
    using wf by (simp_all add: wf_tables_def)
  have mem: "year base \<in> set (forecast_years base a)"
    by (simp add: forecast_years_eq)
  have "index (IS t) = year base # [year base + 1..year base + years a] \<and>
     index (BS t) = index (IS t) \<and> index (CF t) = index (IS t) \<and>
     length (index (IS t)) = Suc (nat (years a)) \<and>
     sorted_wrt (<) (index (IS t)) \<and> hd (index (IS t)) = year base \<and>
     loc (IS t) (year base) Revenue = Inr (Num (revenue base)) \<and>
     loc (IS t) (year base) EBIT = Inr NaN \<and>
     loc (IS t) (year base) Net_Income = Inr (Num (net_income base)) \<and>
     loc (BS t) (year base) Cash = Inr (Num (cash base)) \<and>
     loc (BS t) (year base) Debt = Inr (Num (long_term_debt base)) \<and>
     loc (BS t) (year base) Equity = Inr (Num (common_equity base)) \<and>
     loc (BS t) (year base) Assets =
       Inr (Num (cash base + ppe_net base + other_current_assets base
                 + other_noncurrent_assets base)) \<and>
     loc (CF t) (year base) CFO = Inr NaN \<and> loc (CF t) (year base) CFI = Inr NaN \<and>
     loc (CF t) (year base) CFF = Inr NaN \<and> loc (CF t) (year base) DeltaCash = Inr NaN"
    by (simp add: idx cols mem loc_in rows cells_seed length_forecast_years)
      (simp add: forecast_years_eq sorted_wrt_upto)
  with raw forecast_unrounded [OF raw wf] show ?thesis by blast
qed

lemma table_cell_forecast:
  assumes "forecast_raw base a = Inr (ls, t)" and "wf_tables idx t"
  shows "table_cell (forecast base a) frame y c = loc (frame t) y c"
  by (simp add: table_cell_def forecast_unrounded [OF assms])


section \<open>Claims about the forecast engine\<close>

text \<open>
  C1. For a horizon of at least one year and every projected year \<open>y\<close>, the tables before
  the final rounding hold in row \<open>y\<close> what the recurrence computes from row \<open>y - 1\<close>:
  revenue grows by the growth rate, EBIT is revenue times the blended margin, interest is
  the prior-year debt times the interest rate, taxes are floored at zero, net income is
  EBIT less interest less taxes, equity accretes by net income, debt is the target share
  of the prior-year assets, capex is a share of revenue, CFO is net income, CFI is minus
  capex, CFF is the change of debt, the change in cash is their sum and cash accumulates
  it. The returned tables are these, passed through \<^verbatim>\<open>round(2)\<close>.
\<close>

theorem forecast_recurrence:
  assumes "1 \<le> years a" and "year base < y" and "y \<le> year base + years a"
  shows "\<exists>ls t l r0 d0 e0 a0 c0.
     forecast_raw base a = Inr (ls, t) \<and>
     forecast base a =
       Inr \<lparr>IS = round_frame (IS t), BS = round_frame (BS t), CF = round_frame (CF t)\<rparr> \<and>
     map_of ls y = Some l \<and>
     loc (IS t) (y - 1) Revenue = Inr (Num r0) \<and> loc (BS t) (y - 1) Debt = Inr (Num d0) \<and>
     loc (BS t) (y - 1) Equity = Inr (Num e0) \<and> loc (BS t) (y - 1) Assets = Inr (Num a0) \<and>
     loc (BS t) (y - 1) Cash = Inr (Num c0) \<and>
     (let rev = r0 * (1 + revenue_growth a);
          ebit = rev * (1 - cogs_pct_rev a - sga_pct_rev a - da_pct_rev a);
          intr = d0 * interest_pct_debt a;
          tax = max 0 ((ebit - intr) * Assumptions.tax_rate a);
          ni = ebit - intr - tax;
          debt = target_debt_pct_assets a * a0;
          capex = rev * capex_pct_rev a;
          dcash = ni + (- capex) + (debt - d0);
          csh = c0 + dcash
      in loc (IS t) y Revenue = Inr (Num rev) \<and> loc (IS t) y EBIT = Inr (Num ebit) \<and>
         loc (IS t) y Net_Income = Inr (Num ni) \<and>
         ebit_y l = Num ebit \<and> interest_y l = Num intr \<and> taxes_y l = Num tax \<and>
         ni_y l = Num ni \<and> capex_y l = Num capex \<and>
         loc (BS t) y Equity = Inr (Num (e0 + ni)) \<and> loc (BS t) y Debt = Inr (Num debt) \<and>
         loc (CF t) y CFO = Inr (Num ni) \<and> loc (CF t) y CFI = Inr (Num (- capex)) \<and>
         loc (CF t) y CFF = Inr (Num (debt - d0)) \<and>
         loc (CF t) y DeltaCash = Inr (Num dcash) \<and>
         loc (BS t) y Cash = Inr (Num csh) \<and>
         loc (BS t) y Assets = Inr (Num (csh + debt + (e0 + ni))))"
proof -
  from projected_row [OF assms(2,3)] obtain ls t l where
    raw: "forecast_raw base a = Inr (ls, t)" and l: "map_of ls y = Some l"
    and rr: "row_rel a t l y" by blast
  from rr raw l forecast_eq [OF raw] show ?thesis
    unfolding row_rel_def by blast
qed


theorem forecast_recurrence_witness:
  "1 \<le> years scenario_assumptions \<and> year scenario_base < 2024 \<and>
   2024 \<le> year scenario_base + years scenario_assumptions \<and>
   (\<exists>ls t l. forecast_raw scenario_base scenario_assumptions = Inr (ls, t) \<and>
      map_of ls 2024 = Some l)"
proof -
  have h: "1 \<le> years scenario_assumptions" "year scenario_base < 2024"
    "2024 \<le> year scenario_base + years scenario_assumptions"
    by (simp_all add: scenario_base_def scenario_assumptions_def)
  from forecast_recurrence [OF h] h show ?thesis by blast
qed


text \<open>
  C2. For every base year and every assumptions the call returns; the three returned
  tables have the same index, the base year followed by the years up to
  \<open>year base + years a\<close>: strictly increasing and starting at the base year, of
  \<open>years a + 1\<close> rows for a horizon of at least one year. For a horizon below one the
  returned tables are the seeded ones: the single row of the base year, with the seeded
  values (the EBIT cell and the four cash-flow cells, never assigned, are not numbers).
\<close>

theorem forecast_rows:
  "\<exists>out. forecast base a = Inr out \<and>
     index (IS out) = year base # [year base + 1..year base + years a] \<and>
     index (BS out) = index (IS out) \<and> index (CF out) = index (IS out) \<and>
     sorted_wrt (<) (index (IS out)) \<and> hd (index (IS out)) = year base \<and>
     (1 \<le> years a \<longrightarrow> int (length (index (IS out))) = years a + 1) \<and>
     (years a < 1 \<longrightarrow> index (IS out) = [year base] \<and> out = seed base a) \<and>
     loc (IS out) (year base) Revenue = Inr (Num (revenue base)) \<and>
     loc (IS out) (year base) EBIT = Inr NaN \<and>
     loc (IS out) (year base) Net_Income = Inr (Num (net_income base)) \<and>
     loc (BS out) (year base) Cash = Inr (Num (cash base)) \<and>
     loc (BS out) (year base) Debt = Inr (Num (long_term_debt base)) \<and>
     loc (BS out) (year base) Equity = Inr (Num (common_equity base)) \<and>
     loc (BS out) (year base) Assets =
       Inr (Num (cash base + ppe_net base + other_current_assets base
                 + other_noncurrent_assets base)) \<and>
     loc (CF out) (year base) CFO = Inr NaN \<and> loc (CF out) (year base) CFI = Inr NaN \<and>
     loc (CF out) (year base) CFF = Inr NaN \<and> loc (CF out) (year base) DeltaCash = Inr NaN"
proof -
  from base_row_out [of base a] obtain ls out where raw: "forecast_raw base a = Inr (ls, out)"
    and o: "forecast base a = Inr out"
    "index (IS out) = year base # [year base + 1..year base + years a]"
    "index (BS out) = index (IS out)" "index (CF out) = index (IS out)"
    "length (index (IS out)) = Suc (nat (years a))"
    "sorted_wrt (<) (index (IS out))" "hd (index (IS out)) = year base"
    and r: "loc (IS out) (year base) Revenue = Inr (Num (revenue base))"
    "loc (IS out) (year base) EBIT = Inr NaN"
    "loc (IS out) (year base) Net_Income = Inr (Num (net_income base))"
    "loc (BS out) (year base) Cash = Inr (Num (cash base))"
    "loc (BS out) (year base) Debt = Inr (Num (long_term_debt base))"
    "loc (BS out) (year base) Equity = Inr (Num (common_equity base))"
    "loc (BS out) (year base) Assets =
       Inr (Num (cash base + ppe_net base + other_current_assets base
                 + other_noncurrent_assets base))"
    "loc (CF out) (year base) CFO = Inr NaN" "loc (CF out) (year base) CFI = Inr NaN"
    "loc (CF out) (year base) CFF = Inr NaN" "loc (CF out) (year base) DeltaCash = Inr NaN"
    by blast
  have "1 \<le> years a \<longrightarrow> int (length (index (IS out))) = years a + 1"
    by (simp add: o(5))
  moreover have "years a < 1 \<longrightarrow> index (IS out) = [year base] \<and> out = seed base a"
  proof
    assume "years a < 1"
    then have e: "[year base + 1..year base + years a] = []" by simp
    from raw have "out = seed base a"
      by (simp add: forecast_raw_def forecast_years_eq e)
    then show "index (IS out) = [year base] \<and> out = seed base a"
      using o(2) e by simp
  qed
  ultimately show ?thesis using o r by blast
qed

theorem forecast_rows_witness:
  "1 \<le> years scenario_assumptions \<and>
   (\<exists>out. forecast scenario_base scenario_assumptions = Inr out \<and>
      int (length (index (IS out))) = 2 \<and> index (IS out) = [2023, 2024]) \<and>
   years (flat_assumptions 0) < 1 \<and>
   forecast tiny_base (flat_assumptions 0) = Inr (seed tiny_base (flat_assumptions 0)) \<and>
   (\<exists>out. forecast tiny_base (flat_assumptions 0) = Inr out \<and> index (IS out) = [2023] \<and>
      index (BS out) = [2023] \<and> index (CF out) = [2023] \<and>
      loc (BS out) 2023 Cash = Inr (Num (4 / 1000)))"
proof -
  have h: "1 \<le> years scenario_assumptions" "years (flat_assumptions 0) < 1"
    by (simp_all add: scenario_assumptions_def flat_assumptions_def)
  have y: "year scenario_base = 2023" "years scenario_assumptions = 1"
    "year tiny_base = 2023" "cash tiny_base = 4 / 1000"
    by (simp_all add: scenario_base_def scenario_assumptions_def tiny_base_def)
  from forecast_rows [of scenario_base scenario_assumptions] h(1)
  have "\<exists>out. forecast scenario_base scenario_assumptions = Inr out \<and>
      int (length (index (IS out))) = 2 \<and> index (IS out) = [2023, 2024]"
    by (auto simp: y upto_rec1)
  moreover from forecast_rows [of tiny_base "flat_assumptions 0"] h(2)
  have "forecast tiny_base (flat_assumptions 0) = Inr (seed tiny_base (flat_assumptions 0)) \<and>
   (\<exists>out. forecast tiny_base (flat_assumptions 0) = Inr out \<and> index (IS out) = [2023] \<and>
      index (BS out) = [2023] \<and> index (CF out) = [2023] \<and>
      loc (BS out) 2023 Cash = Inr (Num (4 / 1000)))"
    by (auto simp: y)
  ultimately show ?thesis using h by blast
qed

text \<open>
  C3. For every projected year, the returned balance sheet holds numbers for cash, debt,
  equity and assets in the row of that year, and its assets are cash plus debt plus
  equity exactly: \<^verbatim>\<open>round(2)\<close> leaves the object columns of the tables as the loop built
  them.
\<close>

theorem assets_identity:
  assumes "year base < y" and "y \<le> year base + years a"
  shows "\<exists>out c d e.
     forecast base a = Inr out \<and>
     loc (BS out) y Cash = Inr (Num c) \<and> loc (BS out) y Debt = Inr (Num d) \<and>
     loc (BS out) y Equity = Inr (Num e) \<and> loc (BS out) y Assets = Inr (Num (c + d + e)) \<and>
     cells (BS out) y Assets =
       cadd (cadd (cells (BS out) y Cash) (cells (BS out) y Debt)) (cells (BS out) y Equity)"
proof -
  from projected_row [OF assms] obtain ls t l where
    raw: "forecast_raw base a = Inr (ls, t)" and rr: "row_rel a t l y"
    and out: "forecast base a = Inr t" by blast
  from rr obtain c d e where
    v: "loc (BS t) y Cash = Inr (Num c)" "loc (BS t) y Debt = Inr (Num d)"
      "loc (BS t) y Equity = Inr (Num e)" "loc (BS t) y Assets = Inr (Num (c + d + e))"
    unfolding row_rel_def Let_def by blast
  from v have "cells (BS t) y Cash = Num c" "cells (BS t) y Debt = Num d"
    "cells (BS t) y Equity = Num e" "cells (BS t) y Assets = Num (c + d + e)"
    by (auto simp: loc_def split: if_splits)
  then have "cells (BS t) y Assets =
       cadd (cadd (cells (BS t) y Cash) (cells (BS t) y Debt)) (cells (BS t) y Equity)"
    by simp
  with out v show ?thesis by blast
qed

theorem assets_identity_witness:
  "year scenario_base < 2024 \<and> 2024 \<le> year scenario_base + years scenario_assumptions \<and>
   (\<exists>out c d e. forecast scenario_base scenario_assumptions = Inr out \<and>
      loc (BS out) 2024 Cash = Inr (Num c) \<and> loc (BS out) 2024 Debt = Inr (Num d) \<and>
      loc (BS out) 2024 Equity = Inr (Num e) \<and> loc (BS out) 2024 Assets = Inr (Num (c + d + e)))"
proof -
  have h: "year scenario_base < 2024"
    "2024 \<le> year scenario_base + years scenario_assumptions"
    by (simp_all add: scenario_base_def scenario_assumptions_def)
  from assets_identity [OF h] h show ?thesis by blast
qed

text \<open>
  C4. For every projected year the taxes of its iteration are
  \<open>max 0 ((EBIT - interest) * tax_rate)\<close> and are not negative, whatever the sign of
  EBIT less interest.
\<close>

theorem taxes_nonnegative:
  assumes "year base < y" and "y \<le> year base + years a"
  shows "\<exists>ls t l eb i tx.
     forecast_raw base a = Inr (ls, t) \<and> map_of ls y = Some l \<and>
     ebit_y l = Num eb \<and> interest_y l = Num i \<and> taxes_y l = Num tx \<and>
     tx = max 0 ((eb - i) * Assumptions.tax_rate a) \<and> 0 \<le> tx"
proof -
  from projected_row [OF assms] obtain ls t l where
    raw: "forecast_raw base a = Inr (ls, t)" and l: "map_of ls y = Some l"
    and rr: "row_rel a t l y" by blast
  from rr obtain eb i where
    "ebit_y l = Num eb" "interest_y l = Num i"
    "taxes_y l = Num (max 0 ((eb - i) * Assumptions.tax_rate a))"
    unfolding row_rel_def Let_def by blast
  with raw l show ?thesis by simp
qed


theorem taxes_nonnegative_witness:
  "year scenario_base < 2024 \<and> 2024 \<le> year scenario_base + years scenario_assumptions \<and>
   (\<exists>ls t l tx. forecast_raw scenario_base scenario_assumptions = Inr (ls, t) \<and>
      map_of ls 2024 = Some l \<and> taxes_y l = Num tx \<and> 0 \<le> tx)"
proof -
  have h: "year scenario_base < 2024"
    "2024 \<le> year scenario_base + years scenario_assumptions"
    by (simp_all add: scenario_base_def scenario_assumptions_def)
  from taxes_nonnegative [OF h] h show ?thesis by blast
qed


text \<open>
  C8 (amended). The cash-flow table has the index of the other two tables, and all three
  have a row for the base year; the four cells of the base-year row of the cash-flow
  table are never assigned and are not numbers.
\<close>

theorem cash_flow_base_row:
  "\<exists>out. forecast base a = Inr out \<and>
     index (CF out) = index (IS out) \<and> index (CF out) = index (BS out) \<and>
     year base \<in> set (index (CF out)) \<and> year base \<in> set (index (IS out)) \<and>
     year base \<in> set (index (BS out)) \<and>
     loc (CF out) (year base) CFO = Inr NaN \<and> loc (CF out) (year base) CFI = Inr NaN \<and>
     loc (CF out) (year base) CFF = Inr NaN \<and> loc (CF out) (year base) DeltaCash = Inr NaN"
proof -
  from base_row_out [of base a] obtain out where o: "forecast base a = Inr out"
    "index (IS out) = year base # [year base + 1..year base + years a]"
    "index (BS out) = index (IS out)" "index (CF out) = index (IS out)"
    "loc (CF out) (year base) CFO = Inr NaN" "loc (CF out) (year base) CFI = Inr NaN"
    "loc (CF out) (year base) CFF = Inr NaN" "loc (CF out) (year base) DeltaCash = Inr NaN"
    by blast
  then show ?thesis by simp
qed

text \<open>
  C8 as stated fails: with a horizon of one year, reading the base-year row of the
  returned cash-flow table gives a cell, not the KeyError of a missing row.
\<close>

theorem cash_flow_base_row_counterexample:
  "1 \<le> years scenario_assumptions \<and>
   table_cell (forecast scenario_base scenario_assumptions) CF (year scenario_base) CFO = Inr NaN \<and>
   table_cell (forecast scenario_base scenario_assumptions) CF (year scenario_base) CFO \<noteq> Inl KeyError"
proof -
  from base_row [of scenario_base scenario_assumptions] obtain ls t where
    raw: "forecast_raw scenario_base scenario_assumptions = Inr (ls, t)"
    and wf: "wf_tables (forecast_years scenario_base scenario_assumptions) t"
    and rows: "cells (CF t) (year scenario_base) =
      cells (CF (seed scenario_base scenario_assumptions)) (year scenario_base)"
    by blast
  have "loc (CF t) (year scenario_base) CFO = Inr NaN"
    using wf rows unfolding wf_tables_def
    by (simp add: loc_in cells_seed forecast_years_eq)
  moreover have "1 \<le> years scenario_assumptions"
    by (simp add: scenario_assumptions_def)
  ultimately show ?thesis
    by (simp add: table_cell_forecast [OF raw wf])
qed

section \<open>The normalizer: selection of the latest annual record\<close>

lemma sorted_key_last:
  "sorted (map f xs) \<Longrightarrow> x \<in> set xs \<Longrightarrow> f x \<le> f (last xs)"
  by (induction xs) (auto split: if_splits)

lemma latest_is_max:
  assumes "xs \<noteq> []"
  shows "last (sort_key f xs) \<in> set xs \<and> (\<forall>x\<in>set xs. f x \<le> f (last (sort_key f xs)))"
proof -
  have ne: "sort_key f xs \<noteq> []" using assms by (metis length_sort length_0_conv)
  then have "last (sort_key f xs) \<in> set (sort_key f xs)" by (rule last_in_set)
  moreover have "f x \<le> f (last (sort_key f xs))" if "x \<in> set xs" for x
    using sorted_key_last [of f "sort_key f xs" x] that by simp
  ultimately show ?thesis by simp
qed

lemma pick_eq:
  "pick_latest_annual_usd facts tag =
     (if annual_records facts tag = [] then Inr None
      else ebind (latest_year_val (last (sort_key record_key (annual_records facts tag))))
             (\<lambda>yv. Inr (Some yv)))"
  by (simp add: pick_latest_annual_usd_def annual_records_def Let_def split: sum.splits)

lemma get_absent: "annual_records facts tag = [] \<Longrightarrow> get facts tag = Inr 0"
  by (simp add: get_def pick_eq)

lemma build_InrD:
  assumes "build_base_year_from_sec facts = Inr b"
  shows "\<exists>revenue cogs sga da interest net_income assets liabilities cash ar inventory ppe ap
      accrued debt reported_equity y v.
     get facts ''Revenues'' = Inr revenue \<and> get facts ''CostOfRevenue'' = Inr cogs \<and>
     get facts ''SellingGeneralAndAdministrativeExpense'' = Inr sga \<and>
     get facts ''DepreciationDepletionAndAmortization'' = Inr da \<and>
     get facts ''InterestExpense'' = Inr interest \<and>
     get facts ''NetIncomeLoss'' = Inr net_income \<and>
     get facts ''Assets'' = Inr assets \<and> get facts ''Liabilities'' = Inr liabilities \<and>
     get facts ''CashAndCashEquivalentsAtCarryingValue'' = Inr cash \<and>
     get facts ''AccountsReceivableNetCurrent'' = Inr ar \<and>
     get facts ''InventoryNet'' = Inr inventory \<and>
     get facts ''PropertyPlantAndEquipmentNet'' = Inr ppe \<and>
     get facts ''AccountsPayableCurrent'' = Inr ap \<and>
     get facts ''AccruedLiabilitiesCurrent'' = Inr accrued \<and>
     get facts ''LongTermDebtNoncurrent'' = Inr debt \<and>
     get facts ''StockholdersEquity'' = Inr reported_equity \<and>
     pick_latest_annual_usd facts ''Revenues'' = Inr (Some (y, v)) \<and>
     b = \<lparr>year = y, revenue = revenue, cogs = cogs, sga = sga, da = da,
              interest = interest, tax_rate = 21 / 100, net_income = net_income,
              cash = cash, ar = ar, inventory = inventory,
              other_current_assets = max 0 (assets - (cash + ar + inventory + ppe)) * (5 / 10),
              ppe_net = ppe,
              other_noncurrent_assets = max 0 (assets - (cash + ar + inventory + ppe)) * (5 / 10),
              ap = ap, accrued_liabilities = accrued,
              other_current_liabilities = max 0 (liabilities - (ap + accrued + debt)) * (5 / 10),
              long_term_debt = debt,
              other_noncurrent_liabilities = max 0 (liabilities - (ap + accrued + debt)) * (5 / 10),
              common_equity = (if reported_equity \<noteq> 0 then reported_equity
                               else assets - liabilities)\<rparr>"
  using assms unfolding build_base_year_from_sec_def ebind_Inr_iff Let_def
  by (elim exE conjE) (auto split: option.splits)

lemmas eval_defs = pick_latest_annual_usd_def usd_items_def dict_get_def annual_fact_def
  quarter_fact_def concept_def record_key_def latest_year_val_def py_int_def is_space_def
  is_digit_def digit_val_def Let_def

lemma example_picks:
  "pick_latest_annual_usd example_facts ''Revenues'' = Inr (Some (2023, 100))"
  "pick_latest_annual_usd example_facts ''Assets'' = Inr (Some (2023, 1000))"
  "pick_latest_annual_usd example_facts ''Liabilities'' = Inr (Some (2023, 600))"
  "pick_latest_annual_usd example_facts ''CashAndCashEquivalentsAtCarryingValue'' =
     Inr (Some (2023, 100))"
  "pick_latest_annual_usd example_facts ''StockholdersEquity'' = Inr (Some (2023, 0))"
  "pick_latest_annual_usd example_facts ''CostOfRevenue'' = Inr None"
  "pick_latest_annual_usd example_facts ''SellingGeneralAndAdministrativeExpense'' = Inr None"
  "pick_latest_annual_usd example_facts ''DepreciationDepletionAndAmortization'' = Inr None"
  "pick_latest_annual_usd example_facts ''InterestExpense'' = Inr None"
  "pick_latest_annual_usd example_facts ''NetIncomeLoss'' = Inr None"
  "pick_latest_annual_usd example_facts ''AccountsReceivableNetCurrent'' = Inr None"
  "pick_latest_annual_usd example_facts ''InventoryNet'' = Inr None"
  "pick_latest_annual_usd example_facts ''PropertyPlantAndEquipmentNet'' = Inr None"
  "pick_latest_annual_usd example_facts ''AccountsPayableCurrent'' = Inr None"
  "pick_latest_annual_usd example_facts ''AccruedLiabilitiesCurrent'' = Inr None"
  "pick_latest_annual_usd example_facts ''LongTermDebtNoncurrent'' = Inr None"
  by (simp_all add: eval_defs example_facts_def)

lemma example_build: "build_base_year_from_sec example_facts = Inr example_base"
  by (simp add: build_base_year_from_sec_def get_def example_picks example_base_def)

lemma annual_records_iff:
  "annual_records facts tag \<noteq> [] \<longleftrightarrow>
     (\<exists>items. usd_items facts tag = Inr items \<and> (\<exists>x\<in>set items. fp x = Some ''FY''))"
  by (auto simp: annual_records_def filter_empty_conv split: sum.splits)













section \<open>Claims about the normalizer\<close>

text \<open>
  C6. Whenever the normalizer returns a base year, its two other-asset fields are both
  half of \<open>max 0 (assets - (cash + receivables + inventory + net PP&E))\<close> and its two
  other-liability fields are both half of
  \<open>max 0 (liabilities - (payables + accrued + long-term debt))\<close>, the quantities being the
  values \<open>get\<close> reads for these concepts.
\<close>

theorem residual_split:
  assumes "build_base_year_from_sec facts = Inr b"
  shows "\<exists>assets liabilities csh rcv inv ppe pay accrued debt.
     get facts ''Assets'' = Inr assets \<and> get facts ''Liabilities'' = Inr liabilities \<and>
     get facts ''CashAndCashEquivalentsAtCarryingValue'' = Inr csh \<and>
     get facts ''AccountsReceivableNetCurrent'' = Inr rcv \<and>
     get facts ''InventoryNet'' = Inr inv \<and>
     get facts ''PropertyPlantAndEquipmentNet'' = Inr ppe \<and>
     get facts ''AccountsPayableCurrent'' = Inr pay \<and>
     get facts ''AccruedLiabilitiesCurrent'' = Inr accrued \<and>
     get facts ''LongTermDebtNoncurrent'' = Inr debt \<and>
     other_current_assets b = max 0 (assets - (csh + rcv + inv + ppe)) * (5 / 10) \<and>
     other_noncurrent_assets b = max 0 (assets - (csh + rcv + inv + ppe)) * (5 / 10) \<and>
     other_current_liabilities b = max 0 (liabilities - (pay + accrued + debt)) * (5 / 10) \<and>
     other_noncurrent_liabilities b = max 0 (liabilities - (pay + accrued + debt)) * (5 / 10)"
proof -
  from build_InrD [OF assms] obtain revenue cogs sga da interest net_income assets liabilities
      csh rcv inv ppe pay accrued debt reported_equity y v where
    g: "get facts ''Assets'' = Inr assets" "get facts ''Liabilities'' = Inr liabilities"
     "get facts ''CashAndCashEquivalentsAtCarryingValue'' = Inr csh"
     "get facts ''AccountsReceivableNetCurrent'' = Inr rcv"
     "get facts ''InventoryNet'' = Inr inv"
     "get facts ''PropertyPlantAndEquipmentNet'' = Inr ppe"
     "get facts ''AccountsPayableCurrent'' = Inr pay"
     "get facts ''AccruedLiabilitiesCurrent'' = Inr accrued"
     "get facts ''LongTermDebtNoncurrent'' = Inr debt"
    and b: "b = \<lparr>year = y, revenue = revenue, cogs = cogs, sga = sga, da = da,
              interest = interest, tax_rate = 21 / 100, net_income = net_income,
              cash = csh, ar = rcv, inventory = inv,
              other_current_assets = max 0 (assets - (csh + rcv + inv + ppe)) * (5 / 10),
              ppe_net = ppe,
              other_noncurrent_assets = max 0 (assets - (csh + rcv + inv + ppe)) * (5 / 10),
              ap = pay, accrued_liabilities = accrued,
              other_current_liabilities = max 0 (liabilities - (pay + accrued + debt)) * (5 / 10),
              long_term_debt = debt,
              other_noncurrent_liabilities = max 0 (liabilities - (pay + accrued + debt)) * (5 / 10),
              common_equity = (if reported_equity \<noteq> 0 then reported_equity
                               else assets - liabilities)\<rparr>"
    by blast
  have "other_current_assets b = max 0 (assets - (csh + rcv + inv + ppe)) * (5 / 10)"
    "other_noncurrent_assets b = max 0 (assets - (csh + rcv + inv + ppe)) * (5 / 10)"
    "other_current_liabilities b = max 0 (liabilities - (pay + accrued + debt)) * (5 / 10)"
    "other_noncurrent_liabilities b = max 0 (liabilities - (pay + accrued + debt)) * (5 / 10)"
    by (simp_all add: b)
  with g show ?thesis by blast
qed


theorem residual_split_witness:
  "build_base_year_from_sec example_facts = Inr example_base \<and>
   other_current_assets example_base = 450 \<and> other_noncurrent_assets example_base = 450 \<and>
   other_current_liabilities example_base = 300 \<and>
   other_noncurrent_liabilities example_base = 300 \<and>
   (\<exists>assets csh. get example_facts ''Assets'' = Inr assets \<and>
      get example_facts ''CashAndCashEquivalentsAtCarryingValue'' = Inr csh)"
proof -
  from residual_split [OF example_build] example_build show ?thesis
    by (auto simp: example_base_def)
qed

text \<open>
  C9. Whenever the normalizer returns a base year, its common equity is total assets less
  total liabilities both when stockholders' equity has no annual record and when its
  latest annual record reports the value zero; any other reported value is kept.
\<close>

theorem equity_fallback:
  assumes "build_base_year_from_sec facts = Inr b"
  shows "\<exists>out assets liabilities.
     pick_latest_annual_usd facts ''StockholdersEquity'' = Inr out \<and>
     get facts ''Assets'' = Inr assets \<and> get facts ''Liabilities'' = Inr liabilities \<and>
     common_equity b =
       (case out of
          None \<Rightarrow> assets - liabilities
        | Some (y, v) \<Rightarrow> if v = 0 then assets - liabilities else v)"
proof -
  from build_InrD [OF assms] obtain assets liabilities reported_equity where
    g: "get facts ''Assets'' = Inr assets" "get facts ''Liabilities'' = Inr liabilities"
      "get facts ''StockholdersEquity'' = Inr reported_equity"
    and e: "common_equity b =
      (if reported_equity \<noteq> 0 then reported_equity else assets - liabilities)"
    by fastforce
  from g(3) obtain out where
    o: "pick_latest_annual_usd facts ''StockholdersEquity'' = Inr out"
      "reported_equity = (case out of Some (y, v) \<Rightarrow> v | None \<Rightarrow> 0)"
    unfolding get_def ebind_Inr_iff by auto
  have "common_equity b =
       (case out of
          None \<Rightarrow> assets - liabilities
        | Some (y, v) \<Rightarrow> if v = 0 then assets - liabilities else v)"
    using e o(2) by (auto split: option.splits)
  with g o show ?thesis by blast
qed


theorem equity_fallback_witness:
  "build_base_year_from_sec example_facts = Inr example_base \<and>
   pick_latest_annual_usd example_facts ''StockholdersEquity'' = Inr (Some (2023, 0)) \<and>
   get example_facts ''Assets'' = Inr 1000 \<and> get example_facts ''Liabilities'' = Inr 600 \<and>
   common_equity example_base = 1000 - 600"
proof -
  from equity_fallback [OF example_build] example_build show ?thesis
    by (auto simp: example_picks get_def example_base_def)
qed

text \<open>
  C10. A concept has annual records exactly if the facts hold a list under its unit key
  \<^verbatim>\<open>USD\<close> with a record whose \<^verbatim>\<open>fp\<close> is \<^verbatim>\<open>FY\<close>. Without one,
  \<^verbatim>\<open>pick_latest_annual_usd\<close> returns \<^verbatim>\<open>None\<close> and \<open>get\<close> the default zero. With one,
  the result is never \<^verbatim>\<open>None\<close>: it is read from an annual record \<open>r\<close> such that every
  annual record has an earlier \<^verbatim>\<open>end\<close> than \<open>r\<close>, or the same \<^verbatim>\<open>end\<close> and a
  \<^verbatim>\<open>filed\<close> that is not later (strings compared lexicographically, a missing key as the
  empty string).
\<close>

theorem pick_latest_selects:
  "(annual_records facts tag \<noteq> [] \<longleftrightarrow>
      (\<exists>items. usd_items facts tag = Inr items \<and> (\<exists>x\<in>set items. fp x = Some ''FY''))) \<and>
   (annual_records facts tag = [] \<longrightarrow>
      pick_latest_annual_usd facts tag = Inr None \<and> get facts tag = Inr 0) \<and>
   (annual_records facts tag \<noteq> [] \<longrightarrow>
      (\<exists>r\<in>set (annual_records facts tag).
         (\<forall>x\<in>set (annual_records facts tag).
            (case end_date x of None \<Rightarrow> [] | Some s \<Rightarrow> s)
              < (case end_date r of None \<Rightarrow> [] | Some s \<Rightarrow> s) \<or>
            (case end_date x of None \<Rightarrow> [] | Some s \<Rightarrow> s)
              = (case end_date r of None \<Rightarrow> [] | Some s \<Rightarrow> s) \<and>
            (case filed x of None \<Rightarrow> [] | Some s \<Rightarrow> s)
              \<le> (case filed r of None \<Rightarrow> [] | Some s \<Rightarrow> s)) \<and>
         pick_latest_annual_usd facts tag = ebind (latest_year_val r) (\<lambda>yv. Inr (Some yv)) \<and>
         pick_latest_annual_usd facts tag \<noteq> Inr None))"
proof (intro conjI impI)
  show "annual_records facts tag \<noteq> [] \<longleftrightarrow>
      (\<exists>items. usd_items facts tag = Inr items \<and> (\<exists>x\<in>set items. fp x = Some ''FY''))"
    by (rule annual_records_iff)
next
  assume "annual_records facts tag = []"
  then show "pick_latest_annual_usd facts tag = Inr None" by (simp add: pick_eq)
next
  assume "annual_records facts tag = []"
  then show "get facts tag = Inr 0" by (rule get_absent)
next
  assume ne: "annual_records facts tag \<noteq> []"
  define r where "r = last (sort_key record_key (annual_records facts tag))"
  from latest_is_max [OF ne, of record_key]
  have m: "r \<in> set (annual_records facts tag)"
    and k: "\<And>x. x \<in> set (annual_records facts tag) \<Longrightarrow> record_key x \<le> record_key r"
    by (simp_all add: r_def)
  have o: "(case end_date x of None \<Rightarrow> [] | Some s \<Rightarrow> s)
              < (case end_date r of None \<Rightarrow> [] | Some s \<Rightarrow> s) \<or>
            (case end_date x of None \<Rightarrow> [] | Some s \<Rightarrow> s)
              = (case end_date r of None \<Rightarrow> [] | Some s \<Rightarrow> s) \<and>
            (case filed x of None \<Rightarrow> [] | Some s \<Rightarrow> s)
              \<le> (case filed r of None \<Rightarrow> [] | Some s \<Rightarrow> s)"
    if "x \<in> set (annual_records facts tag)" for x
    using k [OF that] unfolding record_key_def less_eq_prod_def by auto
  have p: "pick_latest_annual_usd facts tag =
      ebind (latest_year_val r) (\<lambda>yv. Inr (Some yv))"
    using ne by (simp add: pick_eq r_def)
  have "pick_latest_annual_usd facts tag \<noteq> Inr None"
    unfolding p by (cases "latest_year_val r") simp_all
  with m o p show "\<exists>r\<in>set (annual_records facts tag).
         (\<forall>x\<in>set (annual_records facts tag).
            (case end_date x of None \<Rightarrow> [] | Some s \<Rightarrow> s)
              < (case end_date r of None \<Rightarrow> [] | Some s \<Rightarrow> s) \<or>
            (case end_date x of None \<Rightarrow> [] | Some s \<Rightarrow> s)
              = (case end_date r of None \<Rightarrow> [] | Some s \<Rightarrow> s) \<and>
            (case filed x of None \<Rightarrow> [] | Some s \<Rightarrow> s)
              \<le> (case filed r of None \<Rightarrow> [] | Some s \<Rightarrow> s)) \<and>
         pick_latest_annual_usd facts tag = ebind (latest_year_val r) (\<lambda>yv. Inr (Some yv)) \<and>
         pick_latest_annual_usd facts tag \<noteq> Inr None"
    by blast
qed

text \<open>
  On \<open>order_facts\<close> the theorem leaves one record only: the annual record in US dollars
  of the period end 2023-12-31 that was filed on 2024-03-15, which stands first in the
  list, although another annual record was filed later and a quarterly record and a
  record in euros have later period ends. A concept reported in euros only has no annual
  record.
\<close>

theorem pick_latest_selects_witness:
  "annual_records order_facts ''Assets'' = [] \<and>
   pick_latest_annual_usd order_facts ''Assets'' = Inr None \<and>
   get order_facts ''Assets'' = Inr 0 \<and>
   annual_records order_facts ''Revenues'' =
     [annual_fact ''2023-12-31'' ''2024-03-15'' (Some 2023) (Some 3),
      annual_fact ''2022-12-31'' ''2024-06-01'' (Some 2022) (Some 2),
      annual_fact ''2023-12-31'' ''2024-02-01'' (Some 2023) (Some 1)] \<and>
   pick_latest_annual_usd order_facts ''Revenues'' = Inr (Some (2023, 3)) \<and>
   get order_facts ''Revenues'' = Inr 3"
proof -
  have a: "annual_records order_facts ''Assets'' = []"
    and b: "annual_records order_facts ''Revenues'' =
     [annual_fact ''2023-12-31'' ''2024-03-15'' (Some 2023) (Some 3),
      annual_fact ''2022-12-31'' ''2024-06-01'' (Some 2022) (Some 2),
      annual_fact ''2023-12-31'' ''2024-02-01'' (Some 2023) (Some 1)]"
    by (simp_all add: annual_records_def usd_items_def dict_get_def order_facts_def
        annual_fact_def quarter_fact_def)
  from pick_latest_selects [of order_facts "''Assets''"] a
  have n: "pick_latest_annual_usd order_facts ''Assets'' = Inr None"
    "get order_facts ''Assets'' = Inr 0" by simp_all
  from pick_latest_selects [of order_facts "''Revenues''"] b
  obtain r where r: "r \<in> set (annual_records order_facts ''Revenues'')"
    and o: "\<forall>x\<in>set (annual_records order_facts ''Revenues'').
            (case end_date x of None \<Rightarrow> [] | Some s \<Rightarrow> s)
              < (case end_date r of None \<Rightarrow> [] | Some s \<Rightarrow> s) \<or>
            (case end_date x of None \<Rightarrow> [] | Some s \<Rightarrow> s)
              = (case end_date r of None \<Rightarrow> [] | Some s \<Rightarrow> s) \<and>
            (case filed x of None \<Rightarrow> [] | Some s \<Rightarrow> s)
              \<le> (case filed r of None \<Rightarrow> [] | Some s \<Rightarrow> s)"
    and p: "pick_latest_annual_usd order_facts ''Revenues'' =
      ebind (latest_year_val r) (\<lambda>yv. Inr (Some yv))"
    by auto
  have "r = annual_fact ''2023-12-31'' ''2024-03-15'' (Some 2023) (Some 3)"
    using r o unfolding b by (auto simp: annual_fact_def)
  then have "pick_latest_annual_usd order_facts ''Revenues'' = Inr (Some (2023, 3))"
    unfolding p by (simp add: latest_year_val_def annual_fact_def)
  then show ?thesis using a b n by (simp add: get_def)
qed



end
